theory Spec2Isabelle
  imports Complex_Main
begin

section \<open>Errors raised while a plan is built\<close>

text \<open>
  The Python exceptions that the planner functions can raise. An \<open>assert\<close> with a
  message carries it; a bare \<open>assert\<close> carries none.
\<close>

datatype py_error =
    IndexError
  | ZeroDivisionError
  | ValueError
  | AssertionError "string option"

section \<open>The LIF update rule (\<open>plan_lif\<close>)\<close>

text \<open>
  Device floats are idealised as real numbers: rounding is not modelled, and the
  literals that the template renders (\<open>${dt}\<close>, \<open>${dt_inv}\<close>) are taken to be the exact
  values of the Python expressions. The quotient \<open>dt / tau\<close> of the kernel is a real
  number only for \<open>tau \<noteq> 0\<close>; theorems that depend on its value say so.

  \<open>textconf\<close> of \<open>plan_lif\<close>: \<open>dt / upsample\<close> and \<open>upsample / dt\<close> are Python
  float divisions, which raise \<open>ZeroDivisionError\<close> on a zero divisor.
\<close>

record lif_conf =
  cf_upsample :: nat
  cf_dt :: real
  cf_dt_inv :: real
  cf_V_threshold :: real

definition lif_textconf :: "real \<Rightarrow> nat \<Rightarrow> py_error + lif_conf" where
  "lif_textconf dt upsample =
     (if upsample = 0 \<or> dt = 0 then Inl ZeroDivisionError
      else Inr \<lparr>cf_upsample = upsample, cf_dt = dt / real upsample,
                cf_dt_inv = real upsample / dt, cf_V_threshold = 1\<rparr>)"

text \<open>
  The variables of the kernel fragment that live across sub-steps: \<open>v\<close>, \<open>w\<close> and
  \<open>spiked\<close> (\<open>dV\<close> and \<open>overshoot\<close> are assigned before every use).
\<close>

record lif_state =
  lv :: real
  lw :: real
  spiked :: bool

text \<open>\<open>dV = (${dt} / tau) * (j - v)\<close>\<close>

definition lif_dV :: "lif_conf \<Rightarrow> real \<Rightarrow> real \<Rightarrow> lif_state \<Rightarrow> real" where
  "lif_dV c tau j s = (cf_dt c / tau) * (j - lv s)"

text \<open>
  The refractory suppression applied to the integrated voltage \<open>v1 = v + dV\<close>:
  \<open>if (v < 0 || w > 2*${dt}) v = 0; else if (w > ${dt}) v *= 1.0 - (w - ${dt}) * ${dt_inv};\<close>
\<close>

definition lif_suppress :: "lif_conf \<Rightarrow> lif_state \<Rightarrow> real \<Rightarrow> real" where
  "lif_suppress c s v1 =
     (if v1 < 0 \<or> lw s > 2 * cf_dt c then 0
      else if lw s > cf_dt c then v1 * (1.0 - (lw s - cf_dt c) * cf_dt_inv c)
      else v1)"

text \<open>The threshold test \<open>v > ${V_threshold}\<close> of one sub-step.\<close>

definition lif_crossing :: "lif_conf \<Rightarrow> real \<Rightarrow> real \<Rightarrow> lif_state \<Rightarrow> bool" where
  "lif_crossing c tau j s =
     (lif_suppress c s (lv s + lif_dV c tau j s) > cf_V_threshold c)"

text \<open>One rendering of the body of \<open>% for ii in range(upsample)\<close>.\<close>

definition lif_substep :: "lif_conf \<Rightarrow> real \<Rightarrow> real \<Rightarrow> real \<Rightarrow> lif_state \<Rightarrow> lif_state" where
  "lif_substep c tau ref j s =
     (let dV = lif_dV c tau j s;
          v2 = lif_suppress c s (lv s + dV)
      in if v2 > cf_V_threshold c
         then (let overshoot = cf_dt c * (v2 - cf_V_threshold c) / dV
               in \<lparr>lv = 0.0, lw = ref - overshoot + cf_dt c, spiked = True\<rparr>)
         else \<lparr>lv = v2, lw = lw s - cf_dt c, spiked = spiked s\<rparr>)"

text \<open>
  The whole fragment: \<open>spiked = 0\<close>, the \<open>upsample\<close> unrolled sub-steps, then
  \<open>ov = v; ow = w; os = (spiked) ? 1.0f : 0.0f\<close>. The result is \<open>(ov, ow, os)\<close>.
\<close>

definition lif_fragment ::
  "lif_conf \<Rightarrow> real \<Rightarrow> real \<Rightarrow> real \<Rightarrow> real \<Rightarrow> real \<Rightarrow> real \<times> real \<times> real" where
  "lif_fragment c j v w tau ref =
     (let s = (lif_substep c tau ref j ^^ cf_upsample c) \<lparr>lv = v, lw = w, spiked = False\<rparr>
      in (lv s, lw s, if spiked s then 1.0 else 0.0))"

text \<open>
  The sub-step as the specification words it (no clamp of a negative voltage), for
  comparison with \<open>lif_substep\<close>.
\<close>

definition lif_substep_claimed :: "real \<Rightarrow> real \<Rightarrow> real \<Rightarrow> real \<Rightarrow> lif_state \<Rightarrow> lif_state" where
  "lif_substep_claimed sub_dt tau ref j s =
     (let dV = (sub_dt / tau) * (j - lv s);
          v1 = lv s + dV;
          v2 = (if lw s > 2 * sub_dt then 0
                else if sub_dt < lw s \<and> lw s \<le> 2 * sub_dt
                     then v1 * (1 - (lw s - sub_dt) / sub_dt)
                else v1)
      in if v2 > 1
         then \<lparr>lv = 0, lw = ref - sub_dt * (v2 - 1) / dV + sub_dt, spiked = True\<rparr>
         else \<lparr>lv = v2, lw = lw s - sub_dt, spiked = spiked s\<rparr>)"

section \<open>The rate rule (\<open>plan_lif_rate\<close>)\<close>

text \<open>
  The rate fragment divides by zero on purpose (\<open>1.0/j\<close> with \<open>j = 0\<close> for an input
  at or below threshold), so its arithmetic is modelled with the IEEE infinities and
  NaN made explicit; finite values are exact reals. A zero is the positive zero (the
  only zero divisor of the fragment is the literal \<open>0.0f\<close> returned by \<open>max\<close>, or
  \<open>j - 1\<close> at \<open>j = 1\<close>).
\<close>

datatype ieee = Fin real | PInf | MInf | NaN

fun fdiv :: "ieee \<Rightarrow> ieee \<Rightarrow> ieee" where
  "fdiv (Fin a) (Fin b) =
     (if b \<noteq> 0 then Fin (a / b) else if a = 0 then NaN else if 0 < a then PInf else MInf)"
| "fdiv (Fin a) PInf = Fin 0"
| "fdiv (Fin a) MInf = Fin 0"
| "fdiv PInf (Fin b) = (if 0 \<le> b then PInf else MInf)"
| "fdiv MInf (Fin b) = (if 0 \<le> b then MInf else PInf)"
| "fdiv _ _ = NaN"

fun fmul :: "ieee \<Rightarrow> ieee \<Rightarrow> ieee" where
  "fmul (Fin a) (Fin b) = Fin (a * b)"
| "fmul (Fin a) PInf = (if a = 0 then NaN else if 0 < a then PInf else MInf)"
| "fmul (Fin a) MInf = (if a = 0 then NaN else if 0 < a then MInf else PInf)"
| "fmul PInf (Fin b) = (if b = 0 then NaN else if 0 < b then PInf else MInf)"
| "fmul MInf (Fin b) = (if b = 0 then NaN else if 0 < b then MInf else PInf)"
| "fmul PInf PInf = PInf"
| "fmul MInf MInf = PInf"
| "fmul PInf MInf = MInf"
| "fmul MInf PInf = MInf"
| "fmul _ _ = NaN"

fun fadd :: "ieee \<Rightarrow> ieee \<Rightarrow> ieee" where
  "fadd (Fin a) (Fin b) = Fin (a + b)"
| "fadd (Fin a) PInf = PInf"
| "fadd (Fin a) MInf = MInf"
| "fadd PInf (Fin b) = PInf"
| "fadd MInf (Fin b) = MInf"
| "fadd PInf PInf = PInf"
| "fadd MInf MInf = MInf"
| "fadd _ _ = NaN"

fun flog1p :: "ieee \<Rightarrow> ieee" where
  "flog1p (Fin x) = (if - 1 < x then Fin (ln (1 + x)) else if x = - 1 then MInf else NaN)"
| "flog1p PInf = PInf"
| "flog1p _ = NaN"

text \<open>
  \<open>j = max(j - 1, 0.0f); r = %(dt)e / (ref + tau * log1p(1.0/j));\<close> for a finite
  input \<open>j\<close> and finite parameters. The numerator is the rendered \<open>dt\<close>.
\<close>

definition lif_rate :: "real \<Rightarrow> real \<Rightarrow> real \<Rightarrow> real \<Rightarrow> ieee" where
  "lif_rate dt tau ref j =
     (let j1 = max (j - 1) 0.0
      in fdiv (Fin dt) (fadd (Fin ref) (fmul (Fin tau) (flog1p (fdiv (Fin 1.0) (Fin j1))))))"

text \<open>
  The rate as the specification words it:
  \<open>rate = 1 / (ref + tau*log1p(1/max(J-1,0)))\<close>, in the same arithmetic.
\<close>

definition lif_rate_claimed :: "real \<Rightarrow> real \<Rightarrow> real \<Rightarrow> ieee" where
  "lif_rate_claimed tau ref j =
     fdiv (Fin 1) (fadd (Fin ref) (fmul (Fin tau) (flog1p (fdiv (Fin 1) (Fin (max (j - 1) 0))))))"

section \<open>Ragged arrays and device memory\<close>

text \<open>
  A device-resident ragged array as the kernels see it: the device buffer that holds
  the values (\<open>cl_buf\<close>, named by a number) and, per row, the offset of the row in the
  buffer and its shape. Two arrays with the same \<open>cl_buf\<close> are views of the same
  memory. The class itself is not part of the sources read here; its three per-row
  lists have one entry per row.
\<close>

record clra =
  cl_buf :: nat
  starts :: "nat list"
  shape0s :: "nat list"
  shape1s :: "nat list"

definition len_ra :: "clra \<Rightarrow> nat" where
  "len_ra v = length (starts v)"

definition wf_ra :: "clra \<Rightarrow> bool" where
  "wf_ra v = (length (shape0s v) = length (starts v) \<and> length (shape1s v) = length (starts v))"

text \<open>Global memory: the value at an offset of a buffer.\<close>

type_synonym 'a mem = "nat \<times> nat \<Rightarrow> 'a"

section \<open>The planner (\<open>_plan_template\<close>)\<close>

text \<open>
  A parameter is a ragged array, or a plain number that becomes a constant of the
  kernel text.
\<close>

datatype 'a param = Ragged clra | Static 'a

text \<open>Decimal rendering of \<open>%d\<close>, and the message of the row-length assertion:
  \<open>"%s.shape0s[%d] must be 1 or %d (not %d)" % (vname, i, base.shape0s[i], v.shape0s[i])\<close>.\<close>

fun dec :: "nat \<Rightarrow> string" where
  "dec n = (if n < 10 then [''0123456789'' ! n]
            else dec (n div 10) @ [''0123456789'' ! (n mod 10)])"

definition shape_message :: "string \<Rightarrow> nat \<Rightarrow> nat \<Rightarrow> nat \<Rightarrow> string" where
  "shape_message vname i expected actual =
     vname @ ''.shape0s['' @ dec i @ ''] must be 1 or '' @ dec expected
       @ '' (not '' @ dec actual @ '')''"

text \<open>
  The loop over \<open>inputs.items() + outputs.items()\<close>; \<open>avars\<close> holds the names
  entered so far. Dictionaries are association lists in iteration order.
\<close>

fun check_vectors ::
  "nat \<Rightarrow> clra \<Rightarrow> string list \<Rightarrow> (string \<times> clra) list \<Rightarrow> py_error + string list" where
  "check_vectors N base avars [] = Inr avars"
| "check_vectors N base avars ((vname, v) # rest) =
     (if vname \<in> set avars then Inl (AssertionError (Some ''Name clash''))
      else if len_ra v \<noteq> N then Inl (AssertionError None)
      else if shape0s v \<noteq> shape0s base then Inl (AssertionError None)
      else if \<not> list_all (\<lambda>x. x = 1) (shape1s v) then Inl (AssertionError None)
      else check_vectors N base (avars @ [vname]) rest)"

text \<open>The inner loop \<open>for i in xrange(N)\<close> over the rows of one parameter.\<close>

fun check_rows :: "string \<Rightarrow> clra \<Rightarrow> clra \<Rightarrow> nat list \<Rightarrow> py_error + unit" where
  "check_rows vname base v [] = Inr ()"
| "check_rows vname base v (i # rows) =
     (if \<not> (shape0s v ! i = shape0s base ! i \<or> shape0s v ! i = 1)
      then Inl (AssertionError
                 (Some (shape_message vname i (shape0s base ! i) (shape0s v ! i))))
      else if shape1s v ! i \<noteq> 1 then Inl (AssertionError None)
      else check_rows vname base v rows)"

text \<open>The loop over \<open>params.items()\<close>.\<close>

fun check_params ::
  "nat \<Rightarrow> clra \<Rightarrow> string list \<Rightarrow> (string \<times> clra) list \<Rightarrow> py_error + string list" where
  "check_params N base avars [] = Inr avars"
| "check_params N base avars ((vname, v) # rest) =
     (if vname \<in> set avars then Inl (AssertionError (Some ''Name clash''))
      else if len_ra v \<noteq> N then Inl (AssertionError None)
      else (case check_rows vname base v [0..<N] of
              Inl e \<Rightarrow> Inl e
            | Inr _ \<Rightarrow> check_params N base (avars @ [vname]) rest))"

text \<open>A parameter row whose length is neither \<open>1\<close> nor the length of the base row.\<close>

definition bad_row :: "clra \<Rightarrow> clra \<Rightarrow> nat \<Rightarrow> bool" where
  "bad_row base v i = (shape0s v ! i \<noteq> 1 \<and> shape0s v ! i \<noteq> shape0s base ! i)"

text \<open>
  A plan: what the rendered kernel text and its launch depend on. \<open>p_lengths\<close> is the
  kernel argument \<open>lengths\<close> (\<open>base.cl_shape0s\<close>), \<open>p_static\<close> the constants
  \<open>const ${type} ${name} = ${value}\<close>.
\<close>

record 'a plan =
  p_n_elements :: nat
  p_N :: nat
  p_ivars :: "clra list"
  p_ovars :: "clra list"
  p_pvars :: "clra list"
  p_static :: "'a list"
  p_lengths :: "nat list"
  p_gsize :: "nat list"

definition ragged_params :: "(string \<times> 'a param) list \<Rightarrow> (string \<times> clra) list" where
  "ragged_params parameters = [(k, v). (k, Ragged v) \<leftarrow> parameters]"

definition static_params :: "(string \<times> 'a param) list \<Rightarrow> 'a list" where
  "static_params parameters = [x. (k, Static x) \<leftarrow> parameters]"

text \<open>
  \<open>_plan_template\<close> up to the build of the program: \<open>inputs.values()[0]\<close> raises
  \<open>IndexError\<close> on an empty dictionary, each failed \<open>assert\<close> raises, and
  \<open>np.max\<close> of no rows raises \<open>ValueError\<close>. The launch size of the Flattened
  regime is \<open>ceil(sum(base.shape0s) / n_elements)\<close>, that of the Block regime
  \<open>(max(base.shape0s), N)\<close>.
\<close>

definition plan_template ::
  "nat \<Rightarrow> (string \<times> clra) list \<Rightarrow> (string \<times> clra) list \<Rightarrow> (string \<times> 'a param) list
    \<Rightarrow> py_error + 'a plan" where
  "plan_template n_elements inputs outputs parameters =
     (case inputs of
        [] \<Rightarrow> Inl IndexError
      | (bname, base) # _ \<Rightarrow>
          (let N = len_ra base;
               params = ragged_params parameters
           in case check_vectors N base [] (inputs @ outputs) of
                Inl e \<Rightarrow> Inl e
              | Inr avars \<Rightarrow>
                  (case check_params N base avars params of
                     Inl e \<Rightarrow> Inl e
                   | Inr _ \<Rightarrow>
                       (let p = \<lparr>p_n_elements = n_elements, p_N = N,
                                  p_ivars = map snd inputs, p_ovars = map snd outputs,
                                  p_pvars = map snd params,
                                  p_static = static_params parameters,
                                  p_lengths = shape0s base, p_gsize = []\<rparr>
                        in if n_elements > 0
                           then Inr (p\<lparr>p_gsize :=
                                  [(sum_list (shape0s base) + n_elements - 1) div n_elements]\<rparr>)
                           else if N = 0 then Inl ValueError
                           else Inr (p\<lparr>p_gsize := [fold max (shape0s base) 0, N]\<rparr>)))))"

section \<open>The generated kernels\<close>

text \<open>
  The user fragment \<open>${core_text}\<close> is a function from the values of the input
  variables, of the parameter variables and of the constants to the values assigned to
  the output variables. The Block kernel declares the parameter variables \<open>const\<close>
  and leaves the output variables and the user's declarations uninitialised, so a
  fragment that both kernels accept reads nothing else.
\<close>

type_synonym 'a core = "'a list \<Rightarrow> 'a list \<Rightarrow> 'a list \<Rightarrow> 'a list"

text \<open>The stores \<open>*cur_${name} = ${name}\<close>, in the order of \<open>ovars\<close>.\<close>

definition store_all :: "(nat \<times> nat) list \<Rightarrow> 'a list \<Rightarrow> 'a mem \<Rightarrow> 'a mem" where
  "store_all addrs vals mem = fold (\<lambda>(a, x) m. m(a := x)) (zip addrs vals) mem"

subsection \<open>Block regime\<close>

text \<open>
  The values of the parameter variables of work-item \<open>(m, n)\<close>:
  \<open>(${name}_shape0s[n] > 1) ? in_${name}[${offset} + m] : in_${name}[${offset}]\<close>.
\<close>

definition block_params :: "'a plan \<Rightarrow> nat \<Rightarrow> nat \<Rightarrow> 'a mem \<Rightarrow> 'a list" where
  "block_params p m n mem =
     map (\<lambda>x. if shape0s x ! n > 1 then mem (cl_buf x, starts x ! n + m)
               else mem (cl_buf x, starts x ! n)) (p_pvars p)"

text \<open>One work-item of the Block kernel, at \<open>m = get_global_id(0)\<close>,
  \<open>n = get_global_id(1)\<close>.\<close>

definition block_item :: "'a core \<Rightarrow> 'a plan \<Rightarrow> nat \<times> nat \<Rightarrow> 'a mem \<Rightarrow> 'a mem" where
  "block_item core p mn mem =
     (let m = fst mn; n = snd mn; M = p_lengths p ! n
      in if m \<ge> M then mem
         else (let ins = map (\<lambda>x. mem (cl_buf x, starts x ! n + m)) (p_ivars p);
                   ps = block_params p m n mem;
                   outs = core ins ps (p_static p)
               in store_all (map (\<lambda>x. (cl_buf x, starts x ! n + m)) (p_ovars p)) outs mem))"

text \<open>
  A launch runs one work-item per point of the global size. The work-items are run one
  after the other here, rows outermost; a work-item of these kernels reads and writes
  only the elements it computes, so for arrays whose elements lie apart every schedule
  leaves the same memory.
\<close>

definition block_kernel :: "'a core \<Rightarrow> 'a plan \<Rightarrow> 'a mem \<Rightarrow> 'a mem" where
  "block_kernel core p mem =
     fold (block_item core p)
       (concat (map (\<lambda>n. map (\<lambda>m. (m, n)) [0..<p_gsize p ! 0]) [0..<p_gsize p ! 1])) mem"

subsection \<open>Flattened regime\<close>

text \<open>
  The local state of a work-item: the row \<open>n\<close> and the offset \<open>m\<close> in it, the
  pointers \<open>cur_${name}\<close> (as offsets into the buffer of the variable), the flags
  \<open>${name}_isvector\<close>, the parameter variables, and global memory.
\<close>

record 'a fl_state =
  fl_n :: nat
  fl_m :: nat
  cur_i :: "nat list"
  cur_o :: "nat list"
  cur_p :: "nat list"
  isvector :: "bool list"
  pvals :: "'a list"
  fl_mem :: "'a mem"

text \<open>
  \<open>while (m >= lengths[n]) { m -= lengths[n]; n++; }\<close>. The kernel does not bound
  \<open>n\<close>; the model stops at the end of \<open>lengths\<close>, which no work-item of the
  launch reaches (its first element lies below the total number of elements).
\<close>

function fl_walk :: "nat list \<Rightarrow> nat \<Rightarrow> nat \<Rightarrow> nat \<times> nat" where
  "fl_walk lengths m n =
     (if n < length lengths \<and> m \<ge> lengths ! n
      then fl_walk lengths (m - lengths ! n) (n + 1) else (m, n))"
  by pat_completeness auto
termination
  by (relation "measure (\<lambda>(lengths, m, n). length lengths - n)") auto

text \<open>The prologue of the kernel, up to the first loop iteration; \<open>None\<close> is the
  \<open>return\<close> at \<open>n >= N\<close>. The parameter variables are declared without a value.\<close>

definition fl_init :: "'a plan \<Rightarrow> nat \<Rightarrow> 'a mem \<Rightarrow> 'a fl_state option" where
  "fl_init p gid mem =
     (let mn = fl_walk (p_lengths p) (gid * p_n_elements p) 0; m = fst mn; n = snd mn
      in if n \<ge> p_N p then None
         else (let isv = map (\<lambda>x. shape0s x ! n > 1) (p_pvars p)
               in Some \<lparr>fl_n = n, fl_m = m,
                         cur_i = map (\<lambda>x. starts x ! n + m) (p_ivars p),
                         cur_o = map (\<lambda>x. starts x ! n + m) (p_ovars p),
                         cur_p = map (\<lambda>x. if shape0s x ! n > 1 then starts x ! n + m
                                           else starts x ! n) (p_pvars p),
                         isvector = isv, pvals = [], fl_mem = mem\<rparr>))"

text \<open>\<open>if ((${ii} == 0) || ${name}_isvector) ${name} = *cur_${name};\<close>\<close>

definition fl_load :: "'a plan \<Rightarrow> nat \<Rightarrow> 'a fl_state \<Rightarrow> 'a list" where
  "fl_load p ii st =
     map (\<lambda>k. if ii = 0 \<or> isvector st ! k then fl_mem st (cl_buf (p_pvars p ! k), cur_p st ! k)
               else pvals st ! k) [0..<length (p_pvars p)]"

text \<open>Loop iteration \<open>ii\<close> up to the stores.\<close>

definition fl_body :: "'a core \<Rightarrow> 'a plan \<Rightarrow> nat \<Rightarrow> 'a fl_state \<Rightarrow> 'a fl_state" where
  "fl_body core p ii st =
     (let ins = map (\<lambda>k. fl_mem st (cl_buf (p_ivars p ! k), cur_i st ! k))
                  [0..<length (p_ivars p)];
          ps = fl_load p ii st;
          outs = core ins ps (p_static p)
      in st\<lparr>pvals := ps,
             fl_mem := store_all (map (\<lambda>k. (cl_buf (p_ovars p ! k), cur_o st ! k))
                                   [0..<length (p_ovars p)]) outs (fl_mem st)\<rparr>)"

text \<open>
  The step to the next element (\<open>m++; if (m >= lengths[n]) {...} else {...}\<close>);
  \<open>None\<close> is the \<open>return\<close> after the last row.
\<close>

definition fl_advance :: "'a plan \<Rightarrow> 'a fl_state \<Rightarrow> 'a fl_state option" where
  "fl_advance p st =
     (let m = fl_m st + 1
      in if m \<ge> p_lengths p ! fl_n st
         then (let n = fl_n st + 1
               in if n \<ge> p_N p then None
                  else (let isv = map (\<lambda>x. shape0s x ! n > 1) (p_pvars p);
                            cp = map (\<lambda>x. starts x ! n) (p_pvars p)
                        in Some (st\<lparr>fl_n := n, fl_m := 0,
                                    cur_i := map (\<lambda>x. starts x ! n) (p_ivars p),
                                    cur_o := map (\<lambda>x. starts x ! n) (p_ovars p),
                                    cur_p := cp, isvector := isv,
                                    pvals := map (\<lambda>k. if \<not> isv ! k
                                                  then fl_mem st (cl_buf (p_pvars p ! k), cp ! k)
                                                  else pvals st ! k)
                                               [0..<length (p_pvars p)]\<rparr>)))
         else Some (st\<lparr>fl_m := m,
                       cur_i := map Suc (cur_i st), cur_o := map Suc (cur_o st),
                       cur_p := map (\<lambda>k. if isvector st ! k then cur_p st ! k + 1
                                          else cur_p st ! k) [0..<length (p_pvars p)]\<rparr>))"

text \<open>
  The unrolled loop \<open>% for ii in range(n_elements)\<close> from iteration \<open>ii\<close> with
  \<open>k\<close> iterations left. The result lists the state after the stores of every
  iteration run: its \<open>fl_n\<close>, \<open>fl_m\<close> name the element computed, its \<open>pvals\<close> are
  the parameter values the fragment was given.
\<close>

fun fl_iter :: "'a core \<Rightarrow> 'a plan \<Rightarrow> nat \<Rightarrow> nat \<Rightarrow> 'a fl_state \<Rightarrow> 'a fl_state list" where
  "fl_iter core p ii 0 st = []"
| "fl_iter core p ii (Suc k) st =
     (let st1 = fl_body core p ii st
      in st1 # (if k = 0 then []
                else (case fl_advance p st1 of
                        None \<Rightarrow> []
                      | Some st2 \<Rightarrow> fl_iter core p (ii + 1) k st2)))"

definition fl_item :: "'a core \<Rightarrow> 'a plan \<Rightarrow> nat \<Rightarrow> 'a mem \<Rightarrow> 'a fl_state list" where
  "fl_item core p gid mem =
     (case fl_init p gid mem of
        None \<Rightarrow> []
      | Some st \<Rightarrow> fl_iter core p 0 (p_n_elements p) st)"

definition final_mem :: "'a fl_state list \<Rightarrow> 'a mem \<Rightarrow> 'a mem" where
  "final_mem sts mem = (if sts = [] then mem else fl_mem (last sts))"

text \<open>The work-items of a launch, one after the other: all their loop states.\<close>

fun fl_run :: "'a core \<Rightarrow> 'a plan \<Rightarrow> nat list \<Rightarrow> 'a mem \<Rightarrow> 'a fl_state list" where
  "fl_run core p [] mem = []"
| "fl_run core p (gid # gids) mem =
     (let sts = fl_item core p gid mem
      in sts @ fl_run core p gids (final_mem sts mem))"

definition fl_kernel :: "'a core \<Rightarrow> 'a plan \<Rightarrow> 'a mem \<Rightarrow> 'a mem" where
  "fl_kernel core p mem = final_mem (fl_run core p [0..<p_gsize p ! 0] mem) mem"

text \<open>Running a plan: the kernel of its regime.\<close>

definition run_plan :: "'a core \<Rightarrow> 'a plan \<Rightarrow> 'a mem \<Rightarrow> 'a mem" where
  "run_plan core p mem =
     (if p_n_elements p > 0 then fl_kernel core p mem else block_kernel core p mem)"

subsection \<open>The broadcast protocol, as specified\<close>

text \<open>
  What parameter \<open>k\<close> is to contribute to the computation of element \<open>m\<close> of row
  \<open>n\<close>: the single value of a row of length \<open>1\<close>, element \<open>m\<close> of a longer row.
\<close>

definition broadcast_value :: "'a plan \<Rightarrow> 'a mem \<Rightarrow> nat \<Rightarrow> nat \<Rightarrow> nat \<Rightarrow> 'a" where
  "broadcast_value p mem k n m =
     (let x = p_pvars p ! k
      in if shape0s x ! n = 1 then mem (cl_buf x, starts x ! n)
         else mem (cl_buf x, starts x ! n + m))"

text \<open>
  The loop invariant of the Flattened work-item at the head of iteration \<open>ii\<close>,
  relative to the memory \<open>mem0\<close> before the launch: the row is in range, every flag
  and pointer of a parameter fits the row and offset, a scalar parameter variable holds
  the row's value once loaded, and the parameter buffers are as before the launch.
\<close>

definition fl_inv :: "'a plan \<Rightarrow> 'a mem \<Rightarrow> nat \<Rightarrow> 'a fl_state \<Rightarrow> bool" where
  "fl_inv p mem0 ii st =
     (fl_n st < p_N p \<and>
      length (cur_p st) = length (p_pvars p) \<and>
      length (isvector st) = length (p_pvars p) \<and>
      length (cur_o st) = length (p_ovars p) \<and>
      (0 < ii \<longrightarrow> length (pvals st) = length (p_pvars p)) \<and>
      (\<forall>k < length (p_pvars p).
          isvector st ! k = (shape0s (p_pvars p ! k) ! fl_n st > 1) \<and>
          cur_p st ! k = starts (p_pvars p ! k) ! fl_n st
                           + (if shape0s (p_pvars p ! k) ! fl_n st > 1 then fl_m st else 0) \<and>
          (0 < ii \<and> \<not> shape0s (p_pvars p ! k) ! fl_n st > 1 \<longrightarrow>
             pvals st ! k = mem0 (cl_buf (p_pvars p ! k), starts (p_pvars p ! k) ! fl_n st))) \<and>
      (\<forall>x \<in> set (p_pvars p). \<forall>a. fl_mem st (cl_buf x, a) = mem0 (cl_buf x, a)))"

text \<open>The parameter buffers are not buffers of outputs.\<close>

definition params_apart :: "'a plan \<Rightarrow> bool" where
  "params_apart p = (\<forall>x \<in> set (p_pvars p). \<forall>y \<in> set (p_ovars p). cl_buf x \<noteq> cl_buf y)"

section \<open>The probe sampler (\<open>plan_probes\<close>)\<close>

text \<open>
  One launch of the probe kernel on one row (one work-group): \<open>x\<close> is the probed
  vector \<open>X[n]\<close>, \<open>y\<close> the row's ring \<open>Y[n]\<close> as a list of \<open>n_prealloc\<close> slots.
  The work-items of the group copy \<open>x\<close> into slot \<open>bufpos\<close> between them
  (\<open>ii\<close> from \<open>get_global_id(0)\<close> in steps of \<open>get_global_size(0)\<close> covers every
  \<open>ii < n_dims\<close>), and work-item 0 updates the counters. \<open>countdowns\<close> and
  \<open>periods\<close> are 32-bit integers of the device; the values the theorems meet lie
  between \<open>0\<close> and the period. \<open>bufpositions\<close> is only ever incremented from
  \<open>0\<close>. A slot index at or beyond the length of the ring leaves the row's ring (the
  device writes past it); the list update then changes nothing.
\<close>

definition probe_row_step ::
  "int \<Rightarrow> 'a list \<Rightarrow> int \<times> nat \<times> 'a list list \<Rightarrow> int \<times> nat \<times> 'a list list" where
  "probe_row_step period x row =
     (let countdown = fst row; bufpos = fst (snd row); y = snd (snd row)
      in if countdown = 0 then (period - 1, bufpos + 1, y[bufpos := x])
         else (countdown - 1, bufpos, y))"

section \<open>The simulator driver (\<open>Simulator\<close>)\<close>

text \<open>
  What \<open>run_steps\<close> touches of the simulator: the device data \<open>all_data\<close> (abstract),
  the counters and rings of the probe plan, and the host lists \<open>probe_outputs\<close>, one
  per probe. Fixed at construction: the period of every probe
  (\<open>int(np.round(float(p.dt) / self.model.dt))\<close>), \<open>n_prealloc_probes\<close>, the rows
  \<open>X\<close> of \<open>all_data\<close> that the probes read, and the operator plans of one step.
\<close>

record ('d, 'a) sim =
  all_data :: 'd
  countdowns :: "int list"
  bufpositions :: "nat list"
  Y :: "'a list list list"
  probe_outputs :: "'a list list list"

record ('d, 'a) sim_conf =
  periods :: "int list"
  n_prealloc :: nat
  X :: "'d \<Rightarrow> nat \<Rightarrow> 'a list"
  ops :: "'d \<Rightarrow> 'd"

text \<open>The simulator as \<open>__init__\<close> and \<open>plan_probes\<close> leave it: counters zero, rings
  allocated, no output yet.\<close>

definition sim_init :: "('d, 'a) sim_conf \<Rightarrow> 'd \<Rightarrow> 'a list list list \<Rightarrow> ('d, 'a) sim" where
  "sim_init cf d y0 =
     \<lparr>all_data = d, countdowns = map (\<lambda>_. 0) (periods cf),
      bufpositions = map (\<lambda>_. 0) (periods cf), Y = y0,
      probe_outputs = map (\<lambda>_. []) (periods cf)\<rparr>"

text \<open>One launch of the probe kernel: every row, each by its own work-group.\<close>

definition probe_kernel :: "('d, 'a) sim_conf \<Rightarrow> ('d, 'a) sim \<Rightarrow> ('d, 'a) sim" where
  "probe_kernel cf s =
     (let rows = map (\<lambda>n. probe_row_step (periods cf ! n) (X cf (all_data s) n)
                            (countdowns s ! n, bufpositions s ! n, Y s ! n))
                   [0..<length (periods cf)]
      in s\<lparr>countdowns := map fst rows, bufpositions := map (\<lambda>r. fst (snd r)) rows,
            Y := map (\<lambda>r. snd (snd r)) rows\<rparr>)"

text \<open>
  Modelled from the spec: \<open>DAG.call_n_times\<close> (\<open>plan.py\<close> is not among the sources).
  It executes the full ordered sequence of plans \<open>B\<close> times; the probe plan is
  registered last, depending on the plans of every operator group, so one pass runs the
  operator plans and then the probe kernel.
\<close>

definition dag_pass :: "('d, 'a) sim_conf \<Rightarrow> ('d, 'a) sim \<Rightarrow> ('d, 'a) sim" where
  "dag_pass cf s = probe_kernel cf (s\<lparr>all_data := ops cf (all_data s)\<rparr>)"

definition call_n_times :: "('d, 'a) sim_conf \<Rightarrow> nat \<Rightarrow> ('d, 'a) sim \<Rightarrow> ('d, 'a) sim" where
  "call_n_times cf B s = (dag_pass cf ^^ B) s"

text \<open>\<open>drain_probe_buffers\<close>: the first \<open>n_buffered\<close> slots of every ring are appended
  to the probe's list, then \<open>bufpositions\<close> is filled with zeros.\<close>

definition drain_probe_buffers :: "('d, 'a) sim \<Rightarrow> ('d, 'a) sim" where
  "drain_probe_buffers s =
     s\<lparr>probe_outputs :=
          map (\<lambda>i. (let n_buffered = bufpositions s ! i
                     in if n_buffered \<noteq> 0
                        then probe_outputs s ! i @ take n_buffered (Y s ! i)
                        else probe_outputs s ! i))
            [0..<length (probe_outputs s)],
        bufpositions := map (\<lambda>_. 0) (bufpositions s)\<rparr>"

text \<open>\<open>has_probes\<close>: the probe plan exists when the model has a probe.
  \<open>_max_steps_between_probes = n_prealloc * min(periods)\<close>.\<close>

definition has_probes :: "('d, 'a) sim_conf \<Rightarrow> bool" where
  "has_probes cf = (periods cf \<noteq> [])"

definition max_steps_between_probes :: "('d, 'a) sim_conf \<Rightarrow> int" where
  "max_steps_between_probes cf = int (n_prealloc cf) * Min (set (periods cf))"

text \<open>The size \<open>B\<close> of the next group of steps when \<open>N\<close> steps remain.\<close>

definition group_size :: "('d, 'a) sim_conf \<Rightarrow> int \<Rightarrow> int" where
  "group_size cf N = (if has_probes cf then min N (max_steps_between_probes cf) else N)"

text \<open>
  The loop \<open>while N: ...\<close> of \<open>run_steps\<close>. It need not end (a group of size \<open>0\<close>
  leaves \<open>N\<close> as it is); not returning is \<open>None\<close>. A group of no or of negatively
  many steps runs no pass.
\<close>

partial_function (option) run_loop ::
  "('d, 'a) sim_conf \<Rightarrow> int \<Rightarrow> ('d, 'a) sim \<Rightarrow> ('d, 'a) sim option" where
  "run_loop cf N s =
     (if N = 0 then Some s
      else run_loop cf (N - group_size cf N)
             (if has_probes cf
              then drain_probe_buffers (call_n_times cf (nat (group_size cf N)) s)
              else call_n_times cf (nat (group_size cf N)) s))"

text \<open>\<open>run_steps\<close>, with its precondition \<open>assert np.all(bufpositions == 0)\<close>.\<close>

definition run_steps ::
  "('d, 'a) sim_conf \<Rightarrow> int \<Rightarrow> ('d, 'a) sim \<Rightarrow> (py_error + ('d, 'a) sim) option" where
  "run_steps cf N s =
     (if has_probes cf \<and> \<not> list_all (\<lambda>b. b = 0) (bufpositions s)
      then Some (Inl (AssertionError None))
      else map_option Inr (run_loop cf N s))"

text \<open>\<open>run_steps(1)\<close> called \<open>k\<close> times in a row.\<close>

fun run_single_steps ::
  "('d, 'a) sim_conf \<Rightarrow> nat \<Rightarrow> ('d, 'a) sim \<Rightarrow> (py_error + ('d, 'a) sim) option" where
  "run_single_steps cf 0 s = Some (Inr s)"
| "run_single_steps cf (Suc k) s =
     (case run_steps cf 1 s of
        None \<Rightarrow> None
      | Some (Inl e) \<Rightarrow> Some (Inl e)
      | Some (Inr s') \<Rightarrow> run_single_steps cf k s')"

text \<open>\<open>probe_data\<close>: \<open>np.vstack\<close> of the probe's list, one row per sample; it raises
  \<open>ValueError\<close> on an empty list.\<close>

definition probe_data :: "('d, 'a) sim \<Rightarrow> nat \<Rightarrow> py_error + 'a list list" where
  "probe_data s i =
     (if probe_outputs s ! i = [] then Inl ValueError else Inr (probe_outputs s ! i))"

text \<open>
  The states \<open>run_steps\<close> is called in. \<open>wf_sim\<close>: one counter, position, ring and
  output list per probe, every ring of \<open>n_prealloc\<close> slots. \<open>probe_ready\<close>: the rings
  are drained and every countdown lies below its period, as after construction and
  after every drain. \<open>probe_log\<close>: the samples of a probe taken so far, those already
  on the host followed by those still buffered in the ring.
\<close>

definition wf_sim :: "('d, 'a) sim_conf \<Rightarrow> ('d, 'a) sim \<Rightarrow> bool" where
  "wf_sim cf s =
     (length (countdowns s) = length (periods cf) \<and>
      length (bufpositions s) = length (periods cf) \<and>
      length (Y s) = length (periods cf) \<and>
      length (probe_outputs s) = length (periods cf) \<and>
      (\<forall>i < length (periods cf). length (Y s ! i) = n_prealloc cf))"

definition probe_ready :: "('d, 'a) sim_conf \<Rightarrow> ('d, 'a) sim \<Rightarrow> bool" where
  "probe_ready cf s =
     (wf_sim cf s \<and>
      (\<forall>i < length (periods cf).
          0 \<le> countdowns s ! i \<and> countdowns s ! i < periods cf ! i \<and> bufpositions s ! i = 0))"

definition probe_log :: "('d, 'a) sim \<Rightarrow> nat \<Rightarrow> 'a list list" where
  "probe_log s i = probe_outputs s ! i @ take (bufpositions s ! i) (Y s ! i)"

section \<open>Properties of the LIF rule\<close>

lemma lif_textconf_Inr:
  assumes "lif_textconf dt k = Inr c"
  shows "k \<noteq> 0" "dt \<noteq> 0" "cf_upsample c = k" "cf_dt c = dt / real k"
    "cf_dt_inv c = real k / dt" "cf_V_threshold c = 1"
  using assms by (auto simp: lif_textconf_def split: if_splits)

lemma lif_textconf_inv:
  assumes "lif_textconf dt k = Inr c"
  shows "x * cf_dt_inv c = x / cf_dt c"
proof -
  from lif_textconf_Inr[OF assms] have "k \<noteq> 0" "dt \<noteq> 0"
    "cf_dt c = dt / real k" "cf_dt_inv c = real k / dt" by simp_all
  then show ?thesis by simp
qed

text \<open>
  Claim C2 as stated: a sub-step only forces the voltage to zero for \<open>W > 2*sub_dt\<close>.
  The kernel also forces a negative integrated voltage to zero: with \<open>dt = 0.001\<close>,
  \<open>tau = 0.02\<close>, \<open>J = -1\<close> and \<open>V = W = 0\<close> the kernel leaves \<open>V = 0\<close> where the
  stated update leaves \<open>V = -0.05\<close>.
\<close>

theorem lif_substep_clamp_counterexample:
  "\<exists>c. lif_textconf (1/1000) 1 = Inr c \<and>
     lv (lif_substep c (1/50) (1/500) (- 1) \<lparr>lv = 0, lw = 0, spiked = False\<rparr>) = 0 \<and>
     lv (lif_substep_claimed (cf_dt c) (1/50) (1/500) (- 1) \<lparr>lv = 0, lw = 0, spiked = False\<rparr>)
       = - (1/20)"
  by (simp add: lif_textconf_def lif_substep_def lif_substep_claimed_def lif_dV_def
      lif_suppress_def Let_def)

text \<open>
  Claim C2, amended: for every state \<open>(V, W)\<close>, input \<open>J\<close>, parameters \<open>tau\<close>,
  \<open>ref\<close> and sub-step \<open>sub_dt = dt/upsample\<close>, one sub-step of the kernel is:
  \<open>V += (sub_dt/tau)*(J - V)\<close>; then \<open>V\<close> is forced to \<open>0\<close> if \<open>V < 0\<close> or
  \<open>W > 2*sub_dt\<close>, else scaled by \<open>1 - (W - sub_dt)/sub_dt\<close> if \<open>W > sub_dt\<close>; then, if
  \<open>V > 1\<close>, \<open>W = ref - sub_dt*(V - 1)/dV + sub_dt\<close>, \<open>V = 0\<close> and a spike is recorded;
  otherwise \<open>W\<close> is decremented by \<open>sub_dt\<close>.
\<close>

theorem lif_substep_amended:
  assumes "lif_textconf dt upsample = Inr c"
  shows "lif_substep c tau ref j \<lparr>lv = V, lw = W, spiked = b\<rparr> =
     (let sub_dt = dt / real upsample;
          dV = (sub_dt / tau) * (j - V);
          V1 = V + dV;
          V2 = (if V1 < 0 \<or> W > 2 * sub_dt then 0
                else if sub_dt < W then V1 * (1 - (W - sub_dt) / sub_dt)
                else V1)
      in if V2 > 1
         then \<lparr>lv = 0, lw = ref - sub_dt * (V2 - 1) / dV + sub_dt, spiked = True\<rparr>
         else \<lparr>lv = V2, lw = W - sub_dt, spiked = b\<rparr>)"
proof -
  note tc = lif_textconf_Inr[OF assms]
  have inv: "\<And>x. x * cf_dt_inv c = x / (dt / real upsample)"
    using lif_textconf_inv[OF assms] tc(4) by simp
  show ?thesis
    unfolding lif_substep_def lif_dV_def lif_suppress_def Let_def
    by (simp add: tc(4) tc(6) inv)
qed

theorem lif_substep_amended_witness:
  "lif_substep \<lparr>cf_upsample = 1, cf_dt = 1/1000, cf_dt_inv = 1000, cf_V_threshold = 1\<rparr>
      (1/50) (1/500) 30 \<lparr>lv = 1/2, lw = 0, spiked = False\<rparr>
   = \<lparr>lv = 0, lw = 69/29500, spiked = True\<rparr>"
proof -
  have tc: "lif_textconf (1/1000) 1 =
      Inr \<lparr>cf_upsample = 1, cf_dt = 1/1000, cf_dt_inv = 1000, cf_V_threshold = 1\<rparr>"
    by (simp add: lif_textconf_def)
  show ?thesis
    using lif_substep_amended[OF tc, of "1/50" "1/500" 30 "1/2" 0 False]
    by (simp add: Let_def)
qed

lemma spiked_funpow:
  "spiked ((lif_substep c tau ref j ^^ n) s) =
     (spiked s \<or> (\<exists>i<n. lif_crossing c tau j ((lif_substep c tau ref j ^^ i) s)))"
proof (induction n)
  case 0
  then show ?case by simp
next
  case (Suc n)
  have step: "spiked (lif_substep c tau ref j t) = (spiked t \<or> lif_crossing c tau j t)" for t
    by (simp add: lif_substep_def lif_crossing_def Let_def)
  show ?case
    by (auto simp: step Suc.IH less_Suc_eq)
qed

text \<open>
  Claim C7: the spike indicator \<open>os\<close> written back after the \<open>upsample\<close> sub-steps is
  \<open>1.0\<close> if the threshold test of any sub-step succeeded and \<open>0.0\<close> otherwise, so a
  tick reports at most one spike. (The voltage and refractory time written back are
  those after the last sub-step, by \<open>lif_fragment\<close>.)
\<close>

theorem lif_spike_indicator:
  "snd (snd (lif_fragment c j v w tau ref)) =
     (if \<exists>i < cf_upsample c.
           lif_crossing c tau j
             ((lif_substep c tau ref j ^^ i) \<lparr>lv = v, lw = w, spiked = False\<rparr>)
      then 1 else 0)"
  by (simp add: lif_fragment_def Let_def spiked_funpow)

theorem lif_spike_indicator_witness:
  "snd (snd (lif_fragment \<lparr>cf_upsample = 2, cf_dt = 1/2000, cf_dt_inv = 2000, cf_V_threshold = 1\<rparr>
       30 (39/40) 0 (1/50) (1/500))) = 1"
proof -
  let ?c = "\<lparr>cf_upsample = 2, cf_dt = 1/2000, cf_dt_inv = 2000, cf_V_threshold = 1\<rparr>"
  let ?s = "\<lparr>lv = 39/40, lw = 0, spiked = False\<rparr>"
  have "lif_crossing ?c (1/50) 30 ((lif_substep ?c (1/50) (1/500) 30 ^^ 0) ?s)"
    by (simp add: lif_crossing_def lif_suppress_def lif_dV_def)
  then have "\<exists>i < cf_upsample ?c.
      lif_crossing ?c (1/50) 30 ((lif_substep ?c (1/50) (1/500) 30 ^^ i) ?s)"
    by (intro exI[of _ 0]) simp
  with lif_spike_indicator[of ?c 30 "39/40" 0 "1/50" "1/500"] show ?thesis
    by (simp only: if_True)
qed





section \<open>Properties of the rate rule\<close>

text \<open>
  Claim C3 as stated: the rate rule writes \<open>1 / (ref + tau*log1p(1/max(J-1, 0)))\<close>.
  The numerator of the kernel is the rendered \<open>dt\<close>: at \<open>dt = 0.001\<close>, \<open>tau = 0.02\<close>,
  \<open>ref = 0.002\<close>, \<open>J = 2\<close> the two differ.
\<close>

theorem lif_rate_numerator_counterexample:
  "lif_rate (1/1000) (1/50) (1/500) 2 \<noteq> lif_rate_claimed (1/50) (1/500) 2"
proof -
  have pos: "0 < 1/500 + ln (2::real) / 50" by (simp add: add_pos_pos)
  then have ne: "1/500 + ln (2::real) / 50 \<noteq> 0" by simp
  have "(1/1000) / (1/500 + ln (2::real) / 50) \<noteq> 1 / (1/500 + ln (2::real) / 50)"
    using ne by (simp add: divide_eq_eq)
  then show ?thesis using ne by (simp add: lif_rate_def lif_rate_claimed_def)
qed

text \<open>
  Claim C3, amended: the rate rule, without sub-stepping or state, writes
  \<open>r = dt / (ref + tau*log1p(1/max(J-1, 0)))\<close>: for an input above threshold
  (\<open>J > 1\<close>, non-zero denominator) the real number \<open>dt / (ref + tau*ln(1 + 1/(J-1)))\<close>,
  and for an input at or below threshold (with \<open>tau \<noteq> 0\<close>) the value \<open>0\<close>, reached
  through the infinite \<open>1/0\<close>.
\<close>

theorem lif_rate_amended:
  "(1 < j \<and> ref + tau * ln (1 + 1 / (j - 1)) \<noteq> 0 \<longrightarrow>
      lif_rate dt tau ref j = Fin (dt / (ref + tau * ln (1 + 1 / (j - 1))))) \<and>
   (j \<le> 1 \<and> tau \<noteq> 0 \<longrightarrow> lif_rate dt tau ref j = Fin 0)"
proof (intro conjI impI)
  assume a: "1 < j \<and> ref + tau * ln (1 + 1 / (j - 1)) \<noteq> 0"
  then have "0 < 1 / (j - 1)" by simp
  then have "- 1 < 1 / (j - 1)" by linarith
  with a show "lif_rate dt tau ref j = Fin (dt / (ref + tau * ln (1 + 1 / (j - 1))))"
    by (simp add: lif_rate_def Let_def max_def)
next
  assume "j \<le> 1 \<and> tau \<noteq> 0"
  then show "lif_rate dt tau ref j = Fin 0"
    by (simp add: lif_rate_def Let_def max_def)
qed

theorem lif_rate_amended_witness:
  "(1 < (2::real) \<and> 1/500 + 1/50 * ln (1 + 1 / (2 - 1)) \<noteq> (0::real)) \<and>
   lif_rate (1/1000) (1/50) (1/500) 2 = Fin ((1/1000) / (1/500 + 1/50 * ln (1 + 1 / (2 - 1)))) \<and>
   ((1/2::real) \<le> 1 \<and> (1/50::real) \<noteq> 0) \<and>
   lif_rate (1/1000) (1/50) (1/500) (1/2) = Fin 0"
proof -
  have pos: "0 < 1/500 + ln (2::real) / 50" by (simp add: add_pos_pos)
  then have a: "1 < (2::real) \<and> 1/500 + 1/50 * ln (1 + 1 / (2 - 1)) \<noteq> (0::real)" by simp
  have b: "(1/2::real) \<le> 1 \<and> (1/50::real) \<noteq> 0" by simp
  from lif_rate_amended[of 2 "1/500" "1/50" "1/1000"] a
  have 1: "lif_rate (1/1000) (1/50) (1/500) 2 = Fin ((1/1000) / (1/500 + 1/50 * ln (1 + 1 / (2 - 1))))"
    by blast
  from lif_rate_amended[of "1/2" "1/500" "1/50" "1/1000"] b
  have 2: "lif_rate (1/1000) (1/50) (1/500) (1/2) = Fin 0" by blast
  from a 1 b 2 show ?thesis by blast
qed

end
